theory Spec2Isabelle
  imports Complex_Main "HOL-Library.AList" "HOL-Library.Char_ord" "HOL-Library.List_Lexorder"
begin

section \<open>Values, records and Python's hashing\<close>

text \<open>
  The tools keep their data as parsed JSON: a theme record is a Python \<open>dict\<close> with string
  keys, a store is a \<open>list\<close> of such dicts. A dict is modelled as an association list in
  insertion order (keys distinct, as in a dict); \<open>d.get(k)\<close> and \<open>k in d\<close> read it through
  \<open>map_of\<close>. Numbers are the integers; strings are lists of 8-bit characters.
\<close>

datatype json =
    JNull
  | JBool bool
  | JNum int
  | JStr string
  | JArr "json list"
  | JObj "(string \<times> json) list"

type_synonym theme = "(string \<times> json) list"

datatype py_error =
    TypeError
  | AttributeError
  | EOFError
  | JSONDecodeError
  | OSError
  | KeyboardInterrupt

text \<open>
  \<open>except Exception\<close> catches every error above but \<open>KeyboardInterrupt\<close>, which derives
  from \<open>BaseException\<close> only.
\<close>

definition is_exception :: "py_error \<Rightarrow> bool" where
  "is_exception e = (e \<noteq> KeyboardInterrupt)"

text \<open>\<open>d.get(k)\<close>: the value, or \<open>None\<close> when the key is absent.\<close>

definition dict_get :: "theme \<Rightarrow> string \<Rightarrow> json" where
  "dict_get d k = (case map_of d k of None \<Rightarrow> JNull | Some v \<Rightarrow> v)"

text \<open>\<open>d.get(k, default)\<close>.\<close>

definition dict_get_default :: "theme \<Rightarrow> string \<Rightarrow> json \<Rightarrow> json" where
  "dict_get_default d k dflt = (case map_of d k of None \<Rightarrow> dflt | Some v \<Rightarrow> v)"

text \<open>
  Members of a Python \<open>set\<close> are compared through \<open>hash\<close> and \<open>==\<close>: \<open>None\<close>, booleans,
  numbers and strings are hashable, with \<open>True == 1\<close> and \<open>False == 0\<close>; lists and dicts
  raise \<open>TypeError\<close>. \<open>hkey\<close> is the value up to that equality.
\<close>

datatype hkey = KNone | KNum int | KStr string

fun py_hash :: "json \<Rightarrow> py_error + hkey" where
  "py_hash JNull = Inr KNone"
| "py_hash (JBool b) = Inr (KNum (if b then 1 else 0))"
| "py_hash (JNum n) = Inr (KNum n)"
| "py_hash (JStr s) = Inr (KStr s)"
| "py_hash (JArr xs) = Inl TypeError"
| "py_hash (JObj kvs) = Inl TypeError"

section \<open>DataSynchronizer (pythonThemeTools/data\_synchronizer.py)\<close>

text \<open>
  The methods below are the bodies of \<open>get_official_repos\<close>, \<open>get_addon_repos\<close> and
  \<open>find_missing_addon_entries\<close> once \<open>_official_data\<close> and \<open>_addon_data\<close> hold the two loaded
  lists of dicts.
\<close>

fun collect_repos :: "theme list \<Rightarrow> hkey set \<Rightarrow> py_error + hkey set" where
  "collect_repos [] repos = Inr repos"
| "collect_repos (theme # rest) repos =
     (case map_of theme ''repo'' of
        None \<Rightarrow> collect_repos rest repos
      | Some v \<Rightarrow>
          (case py_hash v of
             Inl e \<Rightarrow> Inl e
           | Inr k \<Rightarrow> collect_repos rest (insert k repos)))"

definition get_official_repos :: "theme list \<Rightarrow> py_error + hkey set" where
  "get_official_repos official_data = collect_repos official_data {}"

definition get_addon_repos :: "theme list \<Rightarrow> py_error + hkey set" where
  "get_addon_repos addon_data = collect_repos addon_data {}"

text \<open>The loop \<open>for theme in data: if theme.get('repo') in repos: entries.append(theme)\<close>.\<close>

fun select_entries :: "hkey set \<Rightarrow> theme list \<Rightarrow> theme list \<Rightarrow> py_error + theme list" where
  "select_entries repos [] entries = Inr entries"
| "select_entries repos (theme # rest) entries =
     (case py_hash (dict_get theme ''repo'') of
        Inl e \<Rightarrow> Inl e
      | Inr k \<Rightarrow> select_entries repos rest (if k \<in> repos then entries @ [theme] else entries))"

definition find_missing_addon_entries :: "theme list \<Rightarrow> theme list \<Rightarrow> py_error + theme list" where
  "find_missing_addon_entries official_data addon_data =
     (case get_official_repos official_data of
        Inl e \<Rightarrow> Inl e
      | Inr official_repos \<Rightarrow>
          (case get_addon_repos addon_data of
             Inl e \<Rightarrow> Inl e
           | Inr addon_repos \<Rightarrow>
               select_entries (official_repos - addon_repos) official_data []))"

subsection \<open>The Reconciler as the specification words it\<close>

text \<open>
  \<open>key_of\<close> is the Key Extractor: the \<open>repo\<close> value as Python compares it, or nothing (the
  record is unkeyable) when the field is missing or holds \<open>null\<close>, Python's \<open>None\<close>; a list
  or an object is no key either. \<open>key_set\<close> is the set of keys of a store, unkeyable records
  left out. A store is well keyed when every \<open>repo\<close> that is present is a key: a string, a
  number or a boolean.
\<close>

definition key_of :: "theme \<Rightarrow> hkey option" where
  "key_of r =
     (case map_of r ''repo'' of
        None \<Rightarrow> None
      | Some v \<Rightarrow>
          (case py_hash v of
             Inl e \<Rightarrow> None
           | Inr KNone \<Rightarrow> None
           | Inr k \<Rightarrow> Some k))"

definition key_set :: "theme list \<Rightarrow> hkey set" where
  "key_set rs = set (List.map_filter key_of rs)"

definition repo_is_key :: "theme \<Rightarrow> bool" where
  "repo_is_key r = (map_of r ''repo'' = None \<or> key_of r \<noteq> None)"

definition well_keyed :: "theme list \<Rightarrow> bool" where
  "well_keyed rs = list_all repo_is_key rs"

definition spec_find_missing :: "theme list \<Rightarrow> theme list \<Rightarrow> theme list" where
  "spec_find_missing official addon =
     filter (\<lambda>r. case key_of r of
                   None \<Rightarrow> False
                 | Some k \<Rightarrow> k \<in> key_set official - key_set addon) official"

subsection \<open>The synchronization summary\<close>





text \<open>
  Python's truth value of a JSON value: \<open>None\<close>, \<open>False\<close>, \<open>0\<close>, the empty string, list and
  dict are false.
\<close>

fun py_truthy :: "json \<Rightarrow> bool" where
  "py_truthy JNull = False"
| "py_truthy (JBool b) = b"
| "py_truthy (JNum n) = (n \<noteq> 0)"
| "py_truthy (JStr s) = (s \<noteq> [])"
| "py_truthy (JArr xs) = (xs \<noteq> [])"
| "py_truthy (JObj kvs) = (kvs \<noteq> [])"






section \<open>The automatic Entry Builder\<close>

text \<open>
  \<open>x in v\<close> for a string \<open>x\<close>: membership in a list, substring of a string, key of a dict;
  the other values are not containers and raise \<open>TypeError\<close>.
\<close>

fun is_substring :: "string \<Rightarrow> string \<Rightarrow> bool" where
  "is_substring s [] = (s = [])"
| "is_substring s (c # t) = (take (length s) (c # t) = s \<or> is_substring s t)"

fun py_str_in :: "string \<Rightarrow> json \<Rightarrow> py_error + bool" where
  "py_str_in x (JArr xs) = Inr (JStr x \<in> set xs)"
| "py_str_in x (JStr t) = Inr (is_substring x t)"
| "py_str_in x (JObj kvs) = Inr (map_of kvs x \<noteq> None)"
| "py_str_in x JNull = Inl TypeError"
| "py_str_in x (JBool b) = Inl TypeError"
| "py_str_in x (JNum n) = Inl TypeError"

text \<open>
  The three mode tests shared by every builder, appended to the tags collected so far:
  \<open>if 'dark' in modes: tags.append('dark')\<close>, the same for \<open>light\<close>, and
  \<open>if 'dark' in modes and 'light' in modes: tags.append('dark_and_light')\<close>.
\<close>

definition mode_tags :: "json \<Rightarrow> string list \<Rightarrow> py_error + string list" where
  "mode_tags modes tags =
     (case py_str_in ''dark'' modes of
        Inl e \<Rightarrow> Inl e
      | Inr dark \<Rightarrow>
     (case py_str_in ''light'' modes of
        Inl e \<Rightarrow> Inl e
      | Inr light \<Rightarrow>
          Inr (tags @ (if dark then [''dark''] else [])
                    @ (if light then [''light''] else [])
                    @ (if dark \<and> light then [''dark_and_light''] else []))))"

text \<open>\<open>official_entry.get('modes', []) or []\<close>.\<close>

definition modes_of :: "theme \<Rightarrow> json" where
  "modes_of official_entry =
     (let m = dict_get_default official_entry ''modes'' (JArr [])
      in if py_truthy m then m else JArr [])"

text \<open>
  \<open>_create_minimal_addon_entry\<close> of Old/integrated\_batch\_processor\_complete.py: the tags
  start from \<open>['minimalistic']\<close> and are returned through \<open>sorted\<close>, which orders strings
  by character code.
\<close>

definition create_minimal_addon_entry :: "theme \<Rightarrow> py_error + theme" where
  "create_minimal_addon_entry official_entry =
     (case mode_tags (modes_of official_entry) [''minimalistic''] of
        Inl e \<Rightarrow> Inl e
      | Inr auto_tags \<Rightarrow>
          Inr [(''repo'', dict_get official_entry ''repo''),
               (''screenshot-main'', dict_get_default official_entry ''screenshot'' (JStr [])),
               (''screenshots-side'', JArr []),
               (''tags'', JArr (map JStr (sort auto_tags)))])"

text \<open>
  The same method in Old/batch\_processor (2).py starts from the empty list and returns the
  tags as collected, without sorting.
\<close>

definition create_minimal_addon_entry_v2 :: "theme \<Rightarrow> py_error + theme" where
  "create_minimal_addon_entry_v2 official_entry =
     (case mode_tags (modes_of official_entry) [] of
        Inl e \<Rightarrow> Inl e
      | Inr auto_tags \<Rightarrow>
          Inr [(''repo'', dict_get official_entry ''repo''),
               (''screenshot-main'', dict_get_default official_entry ''screenshot'' (JStr [])),
               (''screenshots-side'', JArr []),
               (''tags'', JArr (map JStr auto_tags))])"

text \<open>The same method in pythonThemeTools/batch\_processor.py does not look at the modes.\<close>

definition create_minimal_addon_entry_tools :: "theme \<Rightarrow> py_error + theme" where
  "create_minimal_addon_entry_tools official_entry =
     Inr [(''repo'', dict_get official_entry ''repo''),
          (''screenshot-main'', dict_get_default official_entry ''screenshot'' (JStr [])),
          (''screenshots-side'', JArr []),
          (''tags'', JArr [])]"

text \<open>
  The default tags as the specification words them: \<open>dark\<close> iff it is in the modes,
  \<open>light\<close> likewise, \<open>dark_and_light\<close> iff both are, and \<open>minimalistic\<close> always.
\<close>

definition spec_default_tags :: "bool \<Rightarrow> bool \<Rightarrow> string set" where
  "spec_default_tags dark light =
     (if dark then {''dark''} else {})
     \<union> (if light then {''light''} else {})
     \<union> (if dark \<and> light then {''dark_and_light''} else {})
     \<union> {''minimalistic''}"

section \<open>Strings, paths and the clock\<close>

text \<open>
  Python's \<open>str.strip\<close> removes leading and trailing whitespace and \<open>str.lower\<close> lowers the
  cased characters. A character stands for the code point of the same number (0 to 255): the
  whitespace there is 9 to 13, 28 to 32, 133 and 160; the upper-case letters are A to Z and
  192 to 222 without 215.
\<close>

definition py_isspace :: "char \<Rightarrow> bool" where
  "py_isspace c =
     (let n = (of_char c :: nat)
      in (9 \<le> n \<and> n \<le> 13) \<or> (28 \<le> n \<and> n \<le> 32) \<or> n = 133 \<or> n = 160)"

definition py_strip :: "string \<Rightarrow> string" where
  "py_strip s = rev (dropWhile py_isspace (rev (dropWhile py_isspace s)))"

definition py_lower_char :: "char \<Rightarrow> char" where
  "py_lower_char c =
     (let n = (of_char c :: nat)
      in if (65 \<le> n \<and> n \<le> 90) \<or> (192 \<le> n \<and> n \<le> 222 \<and> n \<noteq> 215)
         then char_of (n + 32) else c)"

definition py_lower :: "string \<Rightarrow> string" where
  "py_lower s = map py_lower_char s"

text \<open>\<open>s.split(",")\<close>: the pieces between the commas, one piece for a string without comma.\<close>

fun split_comma :: "string \<Rightarrow> string list" where
  "split_comma [] = [[]]"
| "split_comma (c # cs) =
     (if c = CHR '','' then [] # split_comma cs
      else (case split_comma cs of
              [] \<Rightarrow> [[c]]
            | p # ps \<Rightarrow> (c # p) # ps))"

text \<open>Decimal digits of a natural number, and the number padded with zeros to a width.\<close>

fun digits :: "nat \<Rightarrow> string" where
  "digits n =
     (if n < 10 then [char_of (48 + n)]
      else digits (n div 10) @ [char_of (48 + n mod 10)])"

declare digits.simps [simp del]

definition zero_pad :: "nat \<Rightarrow> nat \<Rightarrow> string" where
  "zero_pad width n = replicate (width - length (digits n)) CHR ''0'' @ digits n"

definition py_str_int :: "int \<Rightarrow> string" where
  "py_str_int i = (if i < 0 then CHR ''-'' # digits (nat (- i)) else digits (nat i))"

text \<open>\<open>datetime.now().strftime("%Y%m%d_%H%M%S")\<close>.\<close>

record datetime =
  year :: nat
  month :: nat
  day :: nat
  hour :: nat
  minute :: nat
  second :: nat

definition strftime_stamp :: "datetime \<Rightarrow> string" where
  "strftime_stamp d =
     zero_pad 4 (year d) @ zero_pad 2 (month d) @ zero_pad 2 (day d) @ ''_''
     @ zero_pad 2 (hour d) @ zero_pad 2 (minute d) @ zero_pad 2 (second d)"

text \<open>
  A path is its normalised string. \<open>pathlib\<close>'s \<open>name\<close> is the part after the last slash;
  with \<open>i\<close> the index of the last dot of the name, \<open>suffix\<close> is the name from \<open>i\<close> on and
  \<open>stem\<close> the name before \<open>i\<close> when \<open>0 < i < len(name) - 1\<close>; otherwise the suffix is empty
  and the stem is the name.
\<close>

definition path_name :: "string \<Rightarrow> string" where
  "path_name p = rev (takeWhile (\<lambda>c. c \<noteq> CHR ''/'') (rev p))"

definition last_dot :: "string \<Rightarrow> nat option" where
  "last_dot name =
     (if CHR ''.'' \<in> set name
      then Some (length name - 1 - length (takeWhile (\<lambda>c. c \<noteq> CHR ''.'') (rev name)))
      else None)"

definition path_suffix :: "string \<Rightarrow> string" where
  "path_suffix p =
     (let name = path_name p
      in case last_dot name of
           None \<Rightarrow> []
         | Some i \<Rightarrow> if 0 < i \<and> i < length name - 1 then drop i name else [])"

definition path_stem :: "string \<Rightarrow> string" where
  "path_stem p =
     (let name = path_name p
      in case last_dot name of
           None \<Rightarrow> name
         | Some i \<Rightarrow> if 0 < i \<and> i < length name - 1 then take i name else name)"

section \<open>The world: files, clock and terminal\<close>

text \<open>
  A file holds text that \<open>json.load\<close> either parses to a value or rejects; \<open>json.dump\<close> writes
  the text of a value, which parses back to it. The content of a file is therefore kept as
  the value it parses to, or as \<open>Garbage\<close>. Paths name regular files; \<open>readonly\<close> lists the
  paths that the operating system refuses to open for writing. \<open>clock\<close> gives the successive
  readings of \<open>datetime.now()\<close>, \<open>tick\<close> counts the readings taken. \<open>stdin\<close> holds what
  the operator will do at the prompts to come: type a line, or press Ctrl-C, which makes
  \<open>input()\<close> raise \<open>KeyboardInterrupt\<close>; \<open>input()\<close> past the last of them raises
  \<open>EOFError\<close>.
\<close>

datatype content = Doc json | Garbage

datatype keys = Line string | CtrlC

record world =
  files :: "(string \<times> content) list"
  readonly :: "string list"
  clock :: "nat \<Rightarrow> datetime"
  tick :: nat
  stdin :: "keys list"

definition constant_clock :: "datetime \<Rightarrow> nat \<Rightarrow> datetime" where
  "constant_clock d n = d"

text \<open>A world for the examples: the given files and typed lines, at 2024-01-02 03:04:05.\<close>

definition example_time :: datetime where
  "example_time = \<lparr> year = 2024, month = 1, day = 2, hour = 3, minute = 4, second = 5 \<rparr>"

definition example_world :: "(string \<times> content) list \<Rightarrow> string list \<Rightarrow> world" where
  "example_world fs lines =
     \<lparr> files = fs, readonly = [], clock = constant_clock example_time, tick = 0,
       stdin = map Line lines \<rparr>"

definition path_exists :: "world \<Rightarrow> string \<Rightarrow> bool" where
  "path_exists w p = (map_of (files w) p \<noteq> None)"

text \<open>\<open>open(path, 'w')\<close> followed by \<open>json.dump(data, f)\<close>.\<close>

definition write_json :: "world \<Rightarrow> string \<Rightarrow> json \<Rightarrow> py_error + world" where
  "write_json w p v =
     (if p \<in> set (readonly w) then Inl OSError
      else Inr (w\<lparr>files := AList.update p (Doc v) (files w)\<rparr>))"

text \<open>\<open>open(path, 'r')\<close> followed by \<open>json.load(f)\<close>.\<close>

definition read_json :: "world \<Rightarrow> string \<Rightarrow> py_error + json" where
  "read_json w p =
     (case map_of (files w) p of
        None \<Rightarrow> Inl OSError
      | Some Garbage \<Rightarrow> Inl JSONDecodeError
      | Some (Doc v) \<Rightarrow> Inr v)"

text \<open>\<open>shutil.copy2(src, dst)\<close>; copying a file onto itself raises \<open>SameFileError\<close>.\<close>

definition copy2 :: "world \<Rightarrow> string \<Rightarrow> string \<Rightarrow> py_error + world" where
  "copy2 w src dst =
     (case map_of (files w) src of
        None \<Rightarrow> Inl OSError
      | Some c \<Rightarrow>
          if src = dst \<or> dst \<in> set (readonly w) then Inl OSError
          else Inr (w\<lparr>files := AList.update dst c (files w)\<rparr>))"

text \<open>\<open>input(prompt)\<close>: the line as typed, or the exception, with the world after it.\<close>

definition py_input :: "world \<Rightarrow> (py_error + string) \<times> world" where
  "py_input w =
     (case stdin w of
        [] \<Rightarrow> (Inl EOFError, w)
      | Line line # rest \<Rightarrow> (Inr line, w\<lparr>stdin := rest\<rparr>)
      | CtrlC # rest \<Rightarrow> (Inl KeyboardInterrupt, w\<lparr>stdin := rest\<rparr>))"

section \<open>FileManager (pythonThemeTools/file\_manager.py)\<close>

record file_manager =
  backup_dir :: string

text \<open>
  \<open>backup_json_files\<close>: one reading of the clock, the optional suffix appended to the stamp,
  then for each path a copy to \<open>backup_dir / f"{stem}_{timestamp}{suffix}"\<close>. The result maps
  each path to the success of its copy.
\<close>

definition backup_path :: "file_manager \<Rightarrow> string \<Rightarrow> string \<Rightarrow> string" where
  "backup_path fm timestamp file_path =
     backup_dir fm @ ''/'' @ path_stem file_path @ ''_'' @ timestamp @ path_suffix file_path"

fun backup_each ::
  "file_manager \<Rightarrow> string \<Rightarrow> string list \<Rightarrow> world \<Rightarrow> (string \<times> bool) list
     \<Rightarrow> (string \<times> bool) list \<times> world" where
  "backup_each fm timestamp [] w results = (results, w)"
| "backup_each fm timestamp (file_path # rest) w results =
     (if \<not> path_exists w file_path
      then backup_each fm timestamp rest w (AList.update file_path False results)
      else (case copy2 w file_path (backup_path fm timestamp file_path) of
              Inr w' \<Rightarrow> backup_each fm timestamp rest w' (AList.update file_path True results)
            | Inl e \<Rightarrow> backup_each fm timestamp rest w (AList.update file_path False results)))"

definition backup_json_files ::
  "file_manager \<Rightarrow> world \<Rightarrow> string list \<Rightarrow> string option \<Rightarrow> (string \<times> bool) list \<times> world" where
  "backup_json_files fm w file_paths backup_suffix =
     (let stamp = strftime_stamp (clock w (tick w));
          w1 = w\<lparr>tick := Suc (tick w)\<rparr>;
          timestamp = (case backup_suffix of
                         None \<Rightarrow> stamp
                       | Some sfx \<Rightarrow> if sfx = [] then stamp else stamp @ ''_'' @ sfx)
      in backup_each fm timestamp file_paths w1 [])"

text \<open>
  \<open>load_json_data\<close>: the body of the \<open>try\<close> first, then the method with its two handlers,
  both of which print the problem and return \<open>[]\<close>.
\<close>

definition load_json_data_try :: "world \<Rightarrow> string \<Rightarrow> py_error + json list" where
  "load_json_data_try w file_path =
     (if \<not> path_exists w file_path then Inr []
      else (case read_json w file_path of
              Inl e \<Rightarrow> Inl e
            | Inr (JArr xs) \<Rightarrow> Inr xs
            | Inr _ \<Rightarrow> Inr []))"

definition load_json_data :: "world \<Rightarrow> string \<Rightarrow> py_error + json list" where
  "load_json_data w file_path =
     (case load_json_data_try w file_path of
        Inr data \<Rightarrow> Inr data
      | Inl e \<Rightarrow> Inr [])"

text \<open>
  \<open>save_json_data\<close>: the backup under the suffix \<open>pre_save\<close> when asked for and when the file
  exists (a failed backup is reported and the save goes on), then the write; any exception
  makes the result \<open>False\<close>.
\<close>

definition save_json_data ::
  "file_manager \<Rightarrow> world \<Rightarrow> string \<Rightarrow> json list \<Rightarrow> bool \<Rightarrow> bool \<times> world" where
  "save_json_data fm w file_path data create_backup =
     (let w1 = (if create_backup \<and> path_exists w file_path
                then snd (backup_json_files fm w [file_path] (Some ''pre_save''))
                else w)
      in case write_json w1 file_path (JArr data) of
           Inr w2 \<Rightarrow> (True, w2)
         | Inl e \<Rightarrow> (False, w1))"

section \<open>Validator (Old/batch\_processor/core/validator.py)\<close>

text \<open>
  The outcome of \<open>session.head(url, ...)\<close>: a response with its status code, or the
  exception that the request raised, by the handler that catches it. \<open>urlparse\<close> gives the
  scheme and the network location of a URL, or raises.
\<close>

datatype probe = Response int | Timeout | ConnectionError | OtherException string

record validation_result =
  field :: string
  is_valid :: bool
  message :: string
  severity :: string

definition ValidationResult :: "string \<Rightarrow> bool \<Rightarrow> string \<Rightarrow> string \<Rightarrow> validation_result" where
  "ValidationResult f v m s = \<lparr> field = f, is_valid = v, message = m, severity = s \<rparr>"

definition url_timeout :: int where
  "url_timeout = 10"

text \<open>\<open>timeout or self.config['url_timeout']\<close>.\<close>

definition timeout_or_default :: "int option \<Rightarrow> int" where
  "timeout_or_default timeout =
     (case timeout of
        None \<Rightarrow> url_timeout
      | Some t \<Rightarrow> if t = 0 then url_timeout else t)"

definition validate_url ::
  "(string \<Rightarrow> py_error + string \<times> string) \<Rightarrow> (string \<Rightarrow> int \<Rightarrow> probe)
     \<Rightarrow> string \<Rightarrow> int option \<Rightarrow> validation_result" where
  "validate_url urlparse head url timeout =
     (if url = [] \<or> py_strip url = []
      then ValidationResult ''url'' False ''URL is empty'' ''error''
      else
        let url = py_strip url
        in case urlparse url of
             Inl e \<Rightarrow> ValidationResult ''url'' False ''Invalid URL format'' ''error''
           | Inr (scheme, netloc) \<Rightarrow>
               if scheme = [] \<or> netloc = []
               then ValidationResult ''url'' False ''Invalid URL format'' ''error''
               else
                 let timeout = timeout_or_default timeout
                 in case head url timeout of
                      Response status_code \<Rightarrow>
                        if status_code = 200
                        then ValidationResult ''url'' True ''URL is accessible'' ''error''
                        else if status_code = 404
                        then ValidationResult ''url'' False ''URL not found (404)'' ''error''
                        else if status_code = 403
                        then ValidationResult ''url'' False ''Access forbidden (403)'' ''warning''
                        else ValidationResult ''url'' False
                               (''HTTP '' @ py_str_int status_code) ''warning''
                    | Timeout \<Rightarrow>
                        ValidationResult ''url'' False ''URL request timed out'' ''warning''
                    | ConnectionError \<Rightarrow>
                        ValidationResult ''url'' False ''Connection error'' ''warning''
                    | OtherException msg \<Rightarrow>
                        ValidationResult ''url'' False (''Network error: '' @ msg) ''warning'')"

text \<open>A probe is performed when the URL passes the two format checks.\<close>

definition probe_performed :: "(string \<Rightarrow> py_error + string \<times> string) \<Rightarrow> string \<Rightarrow> bool" where
  "probe_performed urlparse url =
     (py_strip url \<noteq> [] \<and>
      (case urlparse (py_strip url) of
         Inl e \<Rightarrow> False
       | Inr (scheme, netloc) \<Rightarrow> scheme \<noteq> [] \<and> netloc \<noteq> []))"

text \<open>A parser for the examples: every URL has the scheme \<open>https\<close> and the host given.\<close>

definition urlparse_https :: "string \<Rightarrow> string \<Rightarrow> py_error + string \<times> string" where
  "urlparse_https host url = Inr (''https'', host)"

definition head_always :: "probe \<Rightarrow> string \<Rightarrow> int \<Rightarrow> probe" where
  "head_always r url timeout = r"

section \<open>The interactive Entry Builder and the Batch Session\<close>

text \<open>
  \<open>open_github_repo\<close> of pythonThemeTools/github\_utils.py returns at once for a false
  \<open>repo\<close>, and otherwise calls \<open>repo.strip()\<close>, which only a string has; the browser is
  opened inside a \<open>try\<close> and has no effect on the data.
\<close>

definition open_github_repo :: "json \<Rightarrow> py_error + unit" where
  "open_github_repo repo =
     (if \<not> py_truthy repo then Inr ()
      else (case repo of JStr s \<Rightarrow> Inr () | _ \<Rightarrow> Inl AttributeError))"

text \<open>
  The tags typed by the operator: the pieces between commas, stripped, the empty ones
  dropped, each replaced by its macro expansion when it is a key of the macro table.
\<close>

definition expand_tag :: "(string \<times> string) list \<Rightarrow> string \<Rightarrow> string" where
  "expand_tag tag_macros stripped =
     (case map_of tag_macros stripped of None \<Rightarrow> stripped | Some expanded \<Rightarrow> expanded)"

definition expand_tags :: "(string \<times> string) list \<Rightarrow> string \<Rightarrow> string list" where
  "expand_tags tag_macros tags_input =
     (if tags_input = [] then []
      else map (expand_tag tag_macros)
             (filter (\<lambda>stripped. stripped \<noteq> []) (map py_strip (split_comma tags_input))))"

text \<open>
  \<open>if 'notm' not in tags: default_tags.append('minimalistic')\<close>, then
  \<open>if 'notm' in tags: tags.remove('notm')\<close> (which removes the first occurrence), then
  \<open>sorted(set(tags + default_tags))\<close>.
\<close>

definition final_tags :: "string list \<Rightarrow> string list \<Rightarrow> string list" where
  "final_tags tags default_tags =
     (let default_tags = (if ''notm'' \<notin> set tags then default_tags @ [''minimalistic'']
                          else default_tags);
          tags = (if ''notm'' \<in> set tags then remove1 ''notm'' tags else tags)
      in sort (remdups (tags @ default_tags)))"

text \<open>
  The loop over the additional screenshots, on what the operator still has to type:
  \<open>exit\<close> abandons the record, an empty line ends the list, Ctrl-C and the end of the input
  raise. The result carries what is left to type.
\<close>

fun screenshot_loop ::
  "keys list \<Rightarrow> string list \<Rightarrow> (py_error + string list option) \<times> keys list" where
  "screenshot_loop [] screenshots_side = (Inl EOFError, [])"
| "screenshot_loop (CtrlC # rest) screenshots_side = (Inl KeyboardInterrupt, rest)"
| "screenshot_loop (Line line # rest) screenshots_side =
     (let url = py_strip line
      in if py_lower url = ''exit'' then (Inr None, rest)
         else if url = [] then (Inr (Some screenshots_side), rest)
         else screenshot_loop rest (screenshots_side @ [url]))"

text \<open>
  The part of \<open>interactive_entry_builder\<close> that batch\_processor.py and
  debloated\_batch\_processor.py share word for word after the tags prompt: the final tags,
  the main screenshot, the additional screenshots, and the assembled entry. The result is
  the exception raised, \<open>None\<close> for an abandoned record, or the entry, with the world
  reached.
\<close>

definition assemble_entry ::
  "(string \<times> string) list \<Rightarrow> json \<Rightarrow> json \<Rightarrow> string list \<Rightarrow> string \<Rightarrow> world
     \<Rightarrow> (py_error + theme option) \<times> world" where
  "assemble_entry tag_macros repo official_screenshot default_tags tags_input w1 =
     (let tags = expand_tags tag_macros tags_input;
          tags_final = final_tags tags default_tags
      in case py_input w1 of
           (Inl e, w2) \<Rightarrow> (Inl e, w2)
         | (Inr line, w2) \<Rightarrow>
             let main_screenshot = py_strip line
             in if py_lower main_screenshot = ''exit'' then (Inr None, w2)
                else
                  (case screenshot_loop (stdin w2) [] of
                     (Inl e, rest) \<Rightarrow> (Inl e, w2\<lparr>stdin := rest\<rparr>)
                   | (Inr None, rest) \<Rightarrow> (Inr None, w2\<lparr>stdin := rest\<rparr>)
                   | (Inr (Some screenshots_side), rest) \<Rightarrow>
                       (Inr (Some
                          [(''repo'', repo),
                           (''screenshot-main'',
                              (if main_screenshot \<noteq> [] then JStr main_screenshot
                               else official_screenshot)),
                           (''screenshots-side'', JArr (map JStr screenshots_side)),
                           (''tags'', JArr (map JStr tags_final))]),
                        w2\<lparr>stdin := rest\<rparr>)))"

text \<open>
  \<open>interactive_entry_builder\<close> of batch\_processor.py: the default tags from
  \<open>official_entry.get("modes", [])\<close>, the browser, the tags prompt with \<open>exit\<close> and \<open>skip\<close>,
  the shared part, and the confirmation: the entry is returned on \<open>y\<close> only.
\<close>

definition interactive_entry_builder ::
  "(string \<times> string) list \<Rightarrow> theme \<Rightarrow> world \<Rightarrow> (py_error + theme option) \<times> world" where
  "interactive_entry_builder tag_macros official_entry w =
     (let repo = dict_get official_entry ''repo'';
          official_screenshot = dict_get_default official_entry ''screenshot'' (JStr []);
          modes = dict_get_default official_entry ''modes'' (JArr [])
      in case mode_tags modes [] of
           Inl e \<Rightarrow> (Inl e, w)
         | Inr default_tags \<Rightarrow>
        (case open_github_repo repo of
           Inl e \<Rightarrow> (Inl e, w)
         | Inr u \<Rightarrow>
        (case py_input w of
           (Inl e, w1) \<Rightarrow> (Inl e, w1)
         | (Inr line, w1) \<Rightarrow>
             let tags_input = py_strip line
             in if py_lower tags_input = ''exit'' then (Inr None, w1)
                else if py_lower tags_input = ''skip'' then (Inr None, w1)
                else
                  (case assemble_entry tag_macros repo official_screenshot default_tags
                          tags_input w1 of
                     (Inl e, w3) \<Rightarrow> (Inl e, w3)
                   | (Inr None, w3) \<Rightarrow> (Inr None, w3)
                   | (Inr (Some addon_entry), w3) \<Rightarrow>
                       (case py_input w3 of
                          (Inl e, w4) \<Rightarrow> (Inl e, w4)
                        | (Inr answer, w4) \<Rightarrow>
                            if py_lower (py_strip answer) = ''y''
                            then (Inr (Some addon_entry), w4)
                            else (Inr None, w4))))))"

text \<open>
  The processor: its file manager, the path of the addon store, the macro table, and the
  synchronizer with its two lists loaded.
\<close>

record batch_processor =
  file_manager :: file_manager
  addon_path :: string
  tag_macros :: "(string \<times> string) list"
  sync_official_data :: "theme list"
  sync_addon_data :: "theme list"

definition load_addon_data :: "batch_processor \<Rightarrow> world \<Rightarrow> py_error + json list" where
  "load_addon_data bp w = load_json_data w (addon_path bp)"

definition save_addon_data :: "batch_processor \<Rightarrow> world \<Rightarrow> json list \<Rightarrow> bool \<times> world" where
  "save_addon_data bp w data = save_json_data (file_manager bp) w (addon_path bp) data True"

text \<open>
  \<open>interactive_entry_builder\<close> of debloated\_batch\_processor.py: no \<open>skip\<close> at the tags
  prompt and no confirmation; after the preview the addon store is loaded, the entry
  appended and the store saved, and the entry is returned when the save succeeded.
\<close>

definition interactive_entry_builder_debloated ::
  "batch_processor \<Rightarrow> theme \<Rightarrow> world \<Rightarrow> (py_error + theme option) \<times> world" where
  "interactive_entry_builder_debloated bp official_entry w =
     (let repo = dict_get official_entry ''repo'';
          official_screenshot = dict_get_default official_entry ''screenshot'' (JStr []);
          modes = dict_get_default official_entry ''modes'' (JArr [])
      in case mode_tags modes [] of
           Inl e \<Rightarrow> (Inl e, w)
         | Inr default_tags \<Rightarrow>
        (case open_github_repo repo of
           Inl e \<Rightarrow> (Inl e, w)
         | Inr u \<Rightarrow>
        (case py_input w of
           (Inl e, w1) \<Rightarrow> (Inl e, w1)
         | (Inr line, w1) \<Rightarrow>
             let tags_input = py_strip line
             in if py_lower tags_input = ''exit'' then (Inr None, w1)
                else
                  (case assemble_entry (tag_macros bp) repo official_screenshot default_tags
                          tags_input w1 of
                     (Inl e, w3) \<Rightarrow> (Inl e, w3)
                   | (Inr None, w3) \<Rightarrow> (Inr None, w3)
                   | (Inr (Some addon_entry), w3) \<Rightarrow>
                       (case load_addon_data bp w3 of
                          Inl e \<Rightarrow> (Inl e, w3)
                        | Inr addon_data \<Rightarrow>
                            (case save_addon_data bp w3 (addon_data @ [JObj addon_entry]) of
                               (True, w4) \<Rightarrow> (Inr (Some addon_entry), w4)
                             | (False, w4) \<Rightarrow> (Inr None, w4)))))))"

text \<open>
  The tally of a session. A message \<open>f"Error processing {repo}: {str(e)}"\<close> is kept as its
  two parts, the message of a failed search for the missing entries as the exception.
\<close>

datatype error_detail = ErrorProcessing json py_error | ErrorFinding py_error

record results =
  processed :: nat
  skipped :: nat
  errors :: nat
  created_entries :: "theme list"
  error_details :: "error_detail list"

definition no_results :: results where
  "no_results = \<lparr> processed = 0, skipped = 0, errors = 0, created_entries = [],
                  error_details = [] \<rparr>"

text \<open>
  The loop of \<open>process_missing_entries_interactive\<close>, the same text in both files, over the
  builder of the file: an entry is appended to the list in memory and counted as processed,
  \<open>None\<close> is counted as skipped, an exception that \<open>except Exception\<close> catches is counted
  as an error with its message, and the loop goes on to the next record. Any other
  exception leaves the loop: the result carries it, with the tally, the list and the world
  at that moment.
\<close>

fun process_loop ::
  "(theme \<Rightarrow> world \<Rightarrow> (py_error + theme option) \<times> world) \<Rightarrow> theme list
     \<Rightarrow> results \<times> json list \<times> world
     \<Rightarrow> py_error option \<times> results \<times> json list \<times> world" where
  "process_loop builder [] (res, addon_data, w) = (None, res, addon_data, w)"
| "process_loop builder (official_entry # rest) (res, addon_data, w) =
     (case builder official_entry w of
        (Inr (Some addon_entry), w') \<Rightarrow>
          process_loop builder rest
            (res\<lparr>created_entries := created_entries res @ [addon_entry],
                 processed := processed res + 1\<rparr>,
             addon_data @ [JObj addon_entry], w')
      | (Inr None, w') \<Rightarrow>
          process_loop builder rest (res\<lparr>skipped := skipped res + 1\<rparr>, addon_data, w')
      | (Inl e, w') \<Rightarrow>
          if is_exception e
          then process_loop builder rest
                 (res\<lparr>errors := errors res + 1,
                      error_details := error_details res
                        @ [ErrorProcessing
                             (dict_get_default official_entry ''repo'' (JStr ''unknown'')) e]\<rparr>,
                  addon_data, w')
          else (Some e, res, addon_data, w'))"

text \<open>
  \<open>process_missing_entries_interactive\<close>: the missing entries from the synchronizer (an
  exception there ends the session with one error), nothing to do when there are none, the
  addon list loaded, the loop, and one save at the end when at least one entry was
  processed; a failed save adds one error. The result is the tally, or the exception that
  left the loop, which no handler of the method catches, with the world reached.
\<close>

definition process_session ::
  "(theme \<Rightarrow> world \<Rightarrow> (py_error + theme option) \<times> world) \<Rightarrow> batch_processor \<Rightarrow> world
     \<Rightarrow> (py_error + results) \<times> world" where
  "process_session builder bp w =
     (case find_missing_addon_entries (sync_official_data bp) (sync_addon_data bp) of
        Inl e \<Rightarrow>
          (Inr (no_results\<lparr>errors := 1, error_details := [ErrorFinding e]\<rparr>), w)
      | Inr missing_entries \<Rightarrow>
          if missing_entries = [] then (Inr no_results, w)
          else
            (case load_addon_data bp w of
               Inl e \<Rightarrow> (Inl e, w)
             | Inr addon_data \<Rightarrow>
                 (case process_loop builder missing_entries (no_results, addon_data, w) of
                    (Some e, res, addon_data', w') \<Rightarrow> (Inl e, w')
                  | (None, res, addon_data', w') \<Rightarrow>
                      if processed res > 0
                      then (case save_addon_data bp w' addon_data' of
                              (True, w'') \<Rightarrow> (Inr res, w'')
                            | (False, w'') \<Rightarrow> (Inr (res\<lparr>errors := errors res + 1\<rparr>), w''))
                      else (Inr res, w'))))"


definition process_missing_entries_interactive_debloated ::
  "batch_processor \<Rightarrow> world \<Rightarrow> (py_error + results) \<times> world" where
  "process_missing_entries_interactive_debloated bp w =
     process_session (interactive_entry_builder_debloated bp) bp w"







text \<open>The macro table that both files build in \<open>_load_tag_macros\<close>.\<close>

definition default_macros :: "(string \<times> string) list" where
  "default_macros =
     [(''m'', ''minimalistic''), (''d'', ''dark''), (''l'', ''light''), (''p'', ''productivity''),
      (''g'', ''gaming''), (''c'', ''colorful''), (''s'', ''simple''), (''md'', ''modern''),
      (''ret'', ''retro'')]"



section \<open>Reconciliation\<close>

lemma key_set_Nil: "key_set [] = {}"
  by (simp add: key_set_def map_filter_simps)

lemma key_set_Cons:
  "key_set (r # rs) = (case key_of r of None \<Rightarrow> key_set rs | Some k \<Rightarrow> insert k (key_set rs))"
  by (simp add: key_set_def map_filter_simps split: option.splits)

lemma key_of_absent: "map_of r ''repo'' = None \<Longrightarrow> key_of r = None"
  by (simp add: key_of_def)

lemma key_of_present:
  assumes "repo_is_key r" and "map_of r ''repo'' = Some v"
  shows "\<exists>k. key_of r = Some k \<and> py_hash v = Inr k \<and> k \<noteq> KNone"
  using assms
  by (auto simp add: repo_is_key_def key_of_def split: sum.splits hkey.splits)

lemma key_set_no_KNone: "KNone \<notin> key_set rs"
proof (induction rs)
  case Nil
  show ?case by (simp add: key_set_Nil)
next
  case (Cons r rs)
  have "key_of r \<noteq> Some KNone"
    by (simp add: key_of_def split: option.splits sum.splits hkey.splits)
  with Cons show ?case by (auto simp add: key_set_Cons split: option.splits)
qed

lemma collect_repos_well_keyed:
  "well_keyed rs \<Longrightarrow> collect_repos rs repos = Inr (repos \<union> key_set rs)"
proof (induction rs arbitrary: repos)
  case Nil
  show ?case by (simp add: key_set_Nil)
next
  case (Cons r rs)
  from Cons.prems have r: "repo_is_key r" and rs: "well_keyed rs"
    by (simp_all add: well_keyed_def)
  show ?case
  proof (cases "map_of r ''repo''")
    case None
    with Cons.IH [OF rs] show ?thesis by (simp add: key_set_Cons key_of_absent)
  next
    case (Some v)
    from key_of_present [OF r Some] obtain k where
      k: "key_of r = Some k" "py_hash v = Inr k" by blast
    with Some Cons.IH [OF rs, of "insert k repos"] show ?thesis
      by (simp add: key_set_Cons)
  qed
qed

lemma select_entries_well_keyed:
  assumes "well_keyed rs" and "KNone \<notin> S"
  shows "select_entries S rs entries =
     Inr (entries @ filter (\<lambda>r. case key_of r of None \<Rightarrow> False | Some k \<Rightarrow> k \<in> S) rs)"
  using assms(1)
proof (induction rs arbitrary: entries)
  case Nil
  show ?case by simp
next
  case (Cons r rs)
  from Cons.prems have r: "repo_is_key r" and rs: "well_keyed rs"
    by (simp_all add: well_keyed_def)
  show ?case
  proof (cases "map_of r ''repo''")
    case None
    then have g: "dict_get r ''repo'' = JNull" by (simp add: dict_get_def)
    from None g assms(2) Cons.IH [OF rs, of entries] show ?thesis
      by (simp add: key_of_absent)
  next
    case (Some v)
    from key_of_present [OF r Some] obtain k where
      k: "key_of r = Some k" "py_hash v = Inr k" by blast
    from Some have g: "dict_get r ''repo'' = v" by (simp add: dict_get_def)
    show ?thesis
    proof (cases "k \<in> S")
      case True
      with k g Cons.IH [OF rs, of "entries @ [r]"] show ?thesis by simp
    next
      case False
      with k g Cons.IH [OF rs, of entries] show ?thesis by simp
    qed
  qed
qed

lemma find_missing_well_keyed:
  assumes "well_keyed official" and "well_keyed addon"
  shows "find_missing_addon_entries official addon = Inr (spec_find_missing official addon)"
proof -
  have o: "get_official_repos official = Inr (key_set official)"
    using collect_repos_well_keyed [OF assms(1), of "{}"] by (simp add: get_official_repos_def)
  have a: "get_addon_repos addon = Inr (key_set addon)"
    using collect_repos_well_keyed [OF assms(2), of "{}"] by (simp add: get_addon_repos_def)
  have n: "KNone \<notin> key_set official - key_set addon"
    using key_set_no_KNone by simp
  show ?thesis
    using select_entries_well_keyed [OF assms(1) n, of "[]"]
    by (simp add: find_missing_addon_entries_def o a spec_find_missing_def)
qed

text \<open>
  Claim C1, as the code has it. For an official list and an addon list in which every
  \<open>repo\<close> that is present is a key (a string, a number or a boolean, and not \<open>null\<close>, a list
  or an object), \<open>find_missing_addon_entries\<close> returns exactly the official records whose key
  lies in the official key set minus the addon key set; records without a \<open>repo\<close> field are
  in neither key set nor in the result; the records come in their order in the official
  list.
\<close>

theorem find_missing_is_set_difference:
  assumes "well_keyed official" and "well_keyed addon"
  shows "find_missing_addon_entries official addon = Inr (spec_find_missing official addon)"
  using assms by (rule find_missing_well_keyed)

theorem find_missing_is_set_difference_witness:
  "well_keyed [[(''repo'', JStr ''a/b''), (''name'', JStr ''B'')], [(''name'', JStr ''N'')],
               [(''repo'', JStr ''c/d'')]]
   \<and> well_keyed [[(''repo'', JStr ''a/b'')]]
   \<and> find_missing_addon_entries
        [[(''repo'', JStr ''a/b''), (''name'', JStr ''B'')], [(''name'', JStr ''N'')],
         [(''repo'', JStr ''c/d'')]]
        [[(''repo'', JStr ''a/b'')]]
      = Inr [[(''repo'', JStr ''c/d'')]]"
proof -
  have w1: "well_keyed [[(''repo'', JStr ''a/b''), (''name'', JStr ''B'')], [(''name'', JStr ''N'')],
               [(''repo'', JStr ''c/d'')]]"
    by (simp add: well_keyed_def repo_is_key_def key_of_def)
  have w2: "well_keyed [[(''repo'', JStr ''a/b'')]]"
    by (simp add: well_keyed_def repo_is_key_def key_of_def)
  show ?thesis
    using w1 w2 find_missing_is_set_difference [OF w1 w2]
    by (simp add: spec_find_missing_def key_set_Cons key_set_Nil key_of_def)
qed

text \<open>
  An official list whose first record has \<open>"repo": null\<close> and whose second record has no
  \<open>repo\<close> field, against an empty addon list: \<open>None\<close> enters the official key set, and
  \<open>theme.get('repo')\<close> is \<open>None\<close> for both records, so both are returned, the second without
  any \<open>repo\<close>; the key sets of the specification are empty and its result is the empty list.
  And an official record whose \<open>repo\<close> is a list makes the method raise \<open>TypeError\<close>.
\<close>

theorem find_missing_null_repo_counterexample:
  "find_missing_addon_entries
     [[(''repo'', JNull), (''name'', JStr ''A'')], [(''name'', JStr ''B'')]] []
     = Inr [[(''repo'', JNull), (''name'', JStr ''A'')], [(''name'', JStr ''B'')]]
   \<and> map_of [(''name'', JStr ''B'')] ''repo'' = None
   \<and> spec_find_missing
       [[(''repo'', JNull), (''name'', JStr ''A'')], [(''name'', JStr ''B'')]] [] = []
   \<and> find_missing_addon_entries [[(''repo'', JArr [JStr ''a/b''])]] [] = Inl TypeError"
  by (simp add: find_missing_addon_entries_def get_official_repos_def get_addon_repos_def
                dict_get_def spec_find_missing_def key_of_def)

section \<open>The synchronization summary\<close>












section \<open>The automatic Entry Builder: default tags\<close>

lemma mode_tags_value:
  assumes "py_str_in ''dark'' modes = Inr dark" and "py_str_in ''light'' modes = Inr light"
  shows "mode_tags modes tags =
     Inr (tags @ (if dark then [''dark''] else [])
               @ (if light then [''light''] else [])
               @ (if dark \<and> light then [''dark_and_light''] else []))"
  using assms by (simp add: mode_tags_def)

lemma sorted_default_tags:
  "sort ([''minimalistic'']
          @ (if dark then [''dark''] else [])
          @ (if light then [''light''] else [])
          @ (if dark \<and> light then [''dark_and_light''] else []))
   = sorted_list_of_set (spec_default_tags dark light)"
  by (cases dark; cases light) (simp_all add: spec_default_tags_def insert_commute)

text \<open>
  Claim C6, as the code has it. For an official record with a \<open>repo\<close> field, on which the
  tests \<open>'dark' in modes\<close> and \<open>'light' in modes\<close> do not raise (the \<open>modes\<close> field is
  absent, false in Python, a list, a string or an object), the automatic Entry Builder of
  Old/integrated\_batch\_processor\_complete.py returns exactly the record \<open>repo\<close>,
  \<open>screenshot-main\<close> (the official screenshot, the empty string when there is none),
  \<open>screenshots-side = []\<close> and \<open>tags\<close>, the sorted list of the set of default tags: \<open>dark\<close>
  iff it is in the modes, \<open>light\<close> likewise, \<open>dark_and_light\<close> iff both are, and always
  \<open>minimalistic\<close>. The builder of Old/batch\_processor (2).py returns the same record with
  the tags \<open>dark\<close>, \<open>light\<close>, \<open>dark_and_light\<close> in that order and without \<open>minimalistic\<close>;
  the builder of pythonThemeTools/batch\_processor.py returns it with no tags.
\<close>

theorem create_minimal_addon_entry_spec:
  assumes "map_of official ''repo'' = Some repo"
    and "py_str_in ''dark'' (modes_of official) = Inr dark"
    and "py_str_in ''light'' (modes_of official) = Inr light"
  shows "create_minimal_addon_entry official =
           Inr [(''repo'', repo),
                (''screenshot-main'',
                   (case map_of official ''screenshot'' of None \<Rightarrow> JStr [] | Some shot \<Rightarrow> shot)),
                (''screenshots-side'', JArr []),
                (''tags'', JArr (map JStr (sorted_list_of_set (spec_default_tags dark light))))]
         \<and> create_minimal_addon_entry_v2 official =
           Inr [(''repo'', repo),
                (''screenshot-main'',
                   (case map_of official ''screenshot'' of None \<Rightarrow> JStr [] | Some shot \<Rightarrow> shot)),
                (''screenshots-side'', JArr []),
                (''tags'', JArr (map JStr
                   ((if dark then [''dark''] else []) @ (if light then [''light''] else [])
                    @ (if dark \<and> light then [''dark_and_light''] else []))))]
         \<and> create_minimal_addon_entry_tools official =
           Inr [(''repo'', repo),
                (''screenshot-main'',
                   (case map_of official ''screenshot'' of None \<Rightarrow> JStr [] | Some shot \<Rightarrow> shot)),
                (''screenshots-side'', JArr []),
                (''tags'', JArr [])]"
proof -
  have r: "dict_get official ''repo'' = repo"
    using assms(1) by (simp add: dict_get_def)
  have s: "sort (''minimalistic'' # (if dark then [''dark''] else [])
          @ (if light then [''light''] else [])
          @ (if dark \<and> light then [''dark_and_light''] else []))
        = sorted_list_of_set (spec_default_tags dark light)"
    using sorted_default_tags [of dark light] by simp
  show ?thesis
    unfolding create_minimal_addon_entry_def create_minimal_addon_entry_v2_def
      create_minimal_addon_entry_tools_def
      mode_tags_value [OF assms(2,3)] r dict_get_default_def
    by (simp only: sum.case append_Cons append_Nil s simp_thms)
qed

theorem create_minimal_addon_entry_spec_witness:
  "map_of [(''repo'', JStr ''a/b''), (''name'', JStr ''Theme B''), (''author'', JStr ''X''),
           (''screenshot'', JStr ''s.png''), (''modes'', JArr [JStr ''dark''])] ''repo''
     = Some (JStr ''a/b'')
   \<and> py_str_in ''dark''
       (modes_of [(''repo'', JStr ''a/b''), (''name'', JStr ''Theme B''), (''author'', JStr ''X''),
           (''screenshot'', JStr ''s.png''), (''modes'', JArr [JStr ''dark''])]) = Inr True
   \<and> py_str_in ''light''
       (modes_of [(''repo'', JStr ''a/b''), (''name'', JStr ''Theme B''), (''author'', JStr ''X''),
           (''screenshot'', JStr ''s.png''), (''modes'', JArr [JStr ''dark''])]) = Inr False
   \<and> create_minimal_addon_entry
         [(''repo'', JStr ''a/b''), (''name'', JStr ''Theme B''), (''author'', JStr ''X''),
          (''screenshot'', JStr ''s.png''), (''modes'', JArr [JStr ''dark''])]
       = Inr [(''repo'', JStr ''a/b''), (''screenshot-main'', JStr ''s.png''),
              (''screenshots-side'', JArr []),
              (''tags'', JArr [JStr ''dark'', JStr ''minimalistic''])]"
proof -
  let ?e = "[(''repo'', JStr ''a/b''), (''name'', JStr ''Theme B''), (''author'', JStr ''X''),
             (''screenshot'', JStr ''s.png''), (''modes'', JArr [JStr ''dark''])]"
  have h1: "map_of ?e ''repo'' = Some (JStr ''a/b'')" by simp
  have h2: "py_str_in ''dark'' (modes_of ?e) = Inr True"
    by (simp add: modes_of_def dict_get_default_def)
  have h3: "py_str_in ''light'' (modes_of ?e) = Inr False"
    by (simp add: modes_of_def dict_get_default_def)
  have t: "sorted_list_of_set (spec_default_tags True False) = [''dark'', ''minimalistic'']"
    by (simp add: spec_default_tags_def)
  show ?thesis
    using h1 h2 h3 create_minimal_addon_entry_spec [OF h1 h2 h3] by (simp add: t)
qed

text \<open>
  On the record of the specification's scenario, the builder of Old/batch\_processor (2).py
  returns the tags \<open>["dark"]\<close> and the builder of pythonThemeTools/batch\_processor.py the
  tags \<open>[]\<close>, where the claim has \<open>["dark", "minimalistic"]\<close>. And on a record whose
  \<open>modes\<close> is the number 5, the builder of Old/integrated\_batch\_processor\_complete.py
  raises \<open>TypeError\<close>.
\<close>

theorem create_minimal_addon_entry_variant_counterexample:
  "create_minimal_addon_entry_v2
         [(''repo'', JStr ''a/b''), (''name'', JStr ''Theme B''), (''author'', JStr ''X''),
          (''screenshot'', JStr ''s.png''), (''modes'', JArr [JStr ''dark''])]
       = Inr [(''repo'', JStr ''a/b''), (''screenshot-main'', JStr ''s.png''),
              (''screenshots-side'', JArr []),
              (''tags'', JArr [JStr ''dark''])]
   \<and> create_minimal_addon_entry_tools
         [(''repo'', JStr ''a/b''), (''name'', JStr ''Theme B''), (''author'', JStr ''X''),
          (''screenshot'', JStr ''s.png''), (''modes'', JArr [JStr ''dark''])]
       = Inr [(''repo'', JStr ''a/b''), (''screenshot-main'', JStr ''s.png''),
              (''screenshots-side'', JArr []),
              (''tags'', JArr [])]
   \<and> create_minimal_addon_entry [(''repo'', JStr ''a/b''), (''modes'', JNum 5)]
       = Inl TypeError"
  by (simp add: create_minimal_addon_entry_v2_def create_minimal_addon_entry_tools_def
                create_minimal_addon_entry_def modes_of_def dict_get_default_def dict_get_def
                mode_tags_def)

section \<open>URL reachability\<close>

text \<open>
  Claim C10, as the code has it. When a probe is performed, status 200 gives a valid result;
  404 gives an invalid result of severity \<open>error\<close>; every other status (403 and the other
  2xx codes among them), a timeout, a connection failure and any other exception give an
  invalid result of severity \<open>warning\<close>.
\<close>

theorem validate_url_by_outcome:
  assumes "probe_performed urlparse url"
  shows "(case head (py_strip url) (timeout_or_default timeout) of
            Response status_code \<Rightarrow>
              if status_code = 200
              then is_valid (validate_url urlparse head url timeout)
              else \<not> is_valid (validate_url urlparse head url timeout)
                   \<and> severity (validate_url urlparse head url timeout)
                       = (if status_code = 404 then ''error'' else ''warning'')
          | _ \<Rightarrow>
              \<not> is_valid (validate_url urlparse head url timeout)
              \<and> severity (validate_url urlparse head url timeout) = ''warning'')"
proof -
  from assms have s: "py_strip url \<noteq> []" and u: "url \<noteq> []"
    by (auto simp add: probe_performed_def py_strip_def)
  from assms obtain scheme netloc where
    p: "urlparse (py_strip url) = Inr (scheme, netloc)" and n: "scheme \<noteq> []" "netloc \<noteq> []"
    by (auto simp add: probe_performed_def split: sum.splits)
  show ?thesis
    by (cases "head (py_strip url) (timeout_or_default timeout)")
       (simp_all add: validate_url_def Let_def s u p n ValidationResult_def)
qed

theorem validate_url_by_outcome_witness:
  "probe_performed (urlparse_https ''example.com'') ''https://example.com/a.png''
   \<and> \<not> is_valid (validate_url (urlparse_https ''example.com'') (head_always (Response 404))
                    ''https://example.com/a.png'' None)
   \<and> severity (validate_url (urlparse_https ''example.com'') (head_always (Response 404))
                    ''https://example.com/a.png'' None) = ''error''"
proof -
  have h: "probe_performed (urlparse_https ''example.com'') ''https://example.com/a.png''"
    by (simp add: probe_performed_def urlparse_https_def py_strip_def py_isspace_def)
  show ?thesis
    using h validate_url_by_outcome [OF h, of "head_always (Response 404)" None]
    by (simp add: head_always_def)
qed

text \<open>
  A response with status 204, a 2xx code, is reported invalid with severity \<open>warning\<close>.
\<close>

theorem validate_url_204_counterexample:
  "probe_performed (urlparse_https ''example.com'') ''https://example.com/a.png''
   \<and> \<not> is_valid (validate_url (urlparse_https ''example.com'') (head_always (Response 204))
                    ''https://example.com/a.png'' None)
   \<and> severity (validate_url (urlparse_https ''example.com'') (head_always (Response 204))
                    ''https://example.com/a.png'' None) = ''warning''"
  by (simp add: probe_performed_def urlparse_https_def py_strip_def py_isspace_def
                validate_url_def head_always_def ValidationResult_def)

section \<open>Record Store: load and save\<close>

lemma backup_each_readonly:
  "readonly (snd (backup_each fm ts ps w results)) = readonly w"
proof (induction ps arbitrary: w results)
  case Nil
  show ?case by simp
next
  case (Cons p ps)
  show ?case
    by (simp add: Cons.IH copy2_def split: sum.splits option.splits if_splits)
qed

lemma backup_json_files_readonly:
  "readonly (snd (backup_json_files fm w ps sfx)) = readonly w"
  by (simp add: backup_json_files_def Let_def backup_each_readonly)

lemma save_json_data_success:
  "fst (save_json_data fm w file_path data create_backup) \<longleftrightarrow> file_path \<notin> set (readonly w)"
  by (simp add: save_json_data_def Let_def write_json_def backup_json_files_readonly)




text \<open>
  Claim C5, as the code has it. \<open>load_json_data\<close> never fails: it returns the empty list
  when no file exists at the location, and also when the file does not hold valid JSON or
  holds a JSON value that is not an array (both handlers and the type test print the
  problem and return \<open>[]\<close>); when the file holds an array it returns its elements in their
  order on disk.
\<close>

theorem load_json_data_total:
  "load_json_data w file_path =
     Inr (case map_of (files w) file_path of
            None \<Rightarrow> []
          | Some Garbage \<Rightarrow> []
          | Some (Doc (JArr xs)) \<Rightarrow> xs
          | Some (Doc _) \<Rightarrow> [])"
  by (simp add: load_json_data_def load_json_data_try_def read_json_def path_exists_def
           split: option.splits content.splits json.splits)

theorem load_json_data_total_witness:
  "load_json_data
     (example_world [(''official.json'', Doc (JArr [JObj [(''repo'', JStr ''c/d'')],
                                                    JObj [(''repo'', JStr ''a/b'')]]))] [])
     ''official.json''
   = Inr [JObj [(''repo'', JStr ''c/d'')], JObj [(''repo'', JStr ''a/b'')]]
   \<and> load_json_data (example_world [] []) ''official.json'' = Inr []"
  using load_json_data_total [of "example_world [(''official.json'',
           Doc (JArr [JObj [(''repo'', JStr ''c/d'')], JObj [(''repo'', JStr ''a/b'')]]))] []"
           "''official.json''"]
        load_json_data_total [of "example_world [] []" "''official.json''"]
  by (simp add: example_world_def)

text \<open>
  A file that is not valid JSON, and a file that holds a JSON object, both load as the
  empty list; no error reaches the caller.
\<close>

theorem load_json_data_invalid_counterexample:
  "load_json_data (example_world [(''addon.json'', Garbage)] []) ''addon.json'' = Inr []
   \<and> load_json_data (example_world [(''addon.json'', Doc (JObj [(''repo'', JStr ''a/b'')]))] [])
        ''addon.json'' = Inr []"
  by (simp add: load_json_data_def load_json_data_try_def read_json_def path_exists_def
                example_world_def)

section \<open>Record Store: backup before overwrite\<close>







section \<open>The interactive Entry Builder: the notm token\<close>

lemma remove1_single_occurrence:
  "count_list xs x = 1 \<Longrightarrow> x \<notin> set (remove1 x xs)"
proof (induction xs)
  case Nil
  then show ?case by simp
next
  case (Cons y ys)
  show ?case
  proof (cases "x = y")
    case True
    with Cons.prems have "count_list ys x = 0" by simp
    then have "x \<notin> set ys" by (simp add: count_list_0_iff)
    with True show ?thesis by simp
  next
    case False
    with Cons.prems have "count_list ys x = 1" by simp
    with Cons.IH False show ?thesis by simp
  qed
qed

lemma count_list_one_member: "count_list xs x = 1 \<Longrightarrow> x \<in> set xs"
  by (metis count_list_0_iff zero_neq_one)

lemma mode_tags_members:
  assumes "mode_tags modes [] = Inr default_tags"
  shows "set default_tags \<subseteq> {''dark'', ''light'', ''dark_and_light''}"
  using assms by (auto simp add: mode_tags_def split: sum.splits if_splits)

lemma final_tags_notm:
  assumes "count_list tags ''notm'' = 1"
    and "set default_tags \<subseteq> {''dark'', ''light'', ''dark_and_light''}"
  shows "''notm'' \<notin> set (final_tags tags default_tags)
         \<and> (''minimalistic'' \<in> set (final_tags tags default_tags)
              \<longleftrightarrow> ''minimalistic'' \<in> set tags)"
proof -
  have m: "''notm'' \<in> set tags" using assms(1) by (rule count_list_one_member)
  have r: "''notm'' \<notin> set (remove1 ''notm'' tags)"
    using assms(1) by (rule remove1_single_occurrence)
  have d: "''notm'' \<notin> set default_tags" "''minimalistic'' \<notin> set default_tags"
    using assms(2) by auto
  have k: "''minimalistic'' \<in> set (remove1 ''notm'' tags) \<longleftrightarrow> ''minimalistic'' \<in> set tags"
    by (simp add: in_set_remove1)
  show ?thesis
    using m r d k by (simp add: final_tags_def)
qed

lemma assemble_entry_tags:
  assumes "assemble_entry macros repo shot default_tags tags_input w1
             = (Inr (Some addon_entry), w3)"
  shows "map_of addon_entry ''tags''
           = Some (JArr (map JStr (final_tags (expand_tags macros tags_input) default_tags)))"
  using assms
  by (auto simp add: assemble_entry_def Let_def
           split: sum.splits prod.splits if_splits option.splits)

lemma interactive_entry_builder_tags:
  assumes "interactive_entry_builder macros official_entry w = (Inr (Some addon_entry), w')"
    and "stdin w = Line line # rest"
  shows "\<exists>default_tags.
           mode_tags (dict_get_default official_entry ''modes'' (JArr [])) [] = Inr default_tags
           \<and> map_of addon_entry ''tags''
               = Some (JArr (map JStr
                   (final_tags (expand_tags macros (py_strip line)) default_tags)))"
  using assms
  by (auto simp add: interactive_entry_builder_def Let_def py_input_def
           dest: assemble_entry_tags
           split: sum.splits prod.splits if_splits option.splits list.splits keys.splits)


lemma interactive_entry_builder_debloated_tags:
  assumes "interactive_entry_builder_debloated bp official_entry w = (Inr (Some addon_entry), w')"
    and "stdin w = Line line # rest"
  shows "\<exists>default_tags.
           mode_tags (dict_get_default official_entry ''modes'' (JArr [])) [] = Inr default_tags
           \<and> map_of addon_entry ''tags''
               = Some (JArr (map JStr
                   (final_tags (expand_tags (tag_macros bp) (py_strip line)) default_tags)))"
  using assms
  by (auto simp add: interactive_entry_builder_debloated_def Let_def py_input_def
           dest: assemble_entry_tags
           split: sum.splits prod.splits if_splits option.splits list.splits bool.splits keys.splits)

text \<open>
  Claim C7, as the code has it. When the interactive builder of batch\_processor.py produces
  a record and the operator's tag line, split at commas and macro-expanded, contains the
  token \<open>notm\<close> once, the tags of the record do not contain \<open>notm\<close>, and they contain
  \<open>minimalistic\<close> exactly when the operator's own expanded tokens do: \<open>notm\<close> withholds the
  default, it does not remove a tag the operator entered.
\<close>

theorem notm_withholds_default:
  assumes "interactive_entry_builder macros official_entry w = (Inr (Some addon_entry), w')"
    and "stdin w = Line line # rest"
    and "count_list (expand_tags macros (py_strip line)) ''notm'' = 1"
  shows "\<exists>tags. map_of addon_entry ''tags'' = Some (JArr (map JStr tags))
           \<and> ''notm'' \<notin> set tags
           \<and> (''minimalistic'' \<in> set tags
                \<longleftrightarrow> ''minimalistic'' \<in> set (expand_tags macros (py_strip line)))"
proof -
  from interactive_entry_builder_tags [OF assms(1,2)] obtain default_tags where
    d: "mode_tags (dict_get_default official_entry ''modes'' (JArr [])) [] = Inr default_tags"
    and t: "map_of addon_entry ''tags''
              = Some (JArr (map JStr
                  (final_tags (expand_tags macros (py_strip line)) default_tags)))"
    by blast
  from final_tags_notm [OF assms(3) mode_tags_members [OF d]] t show ?thesis
    by blast
qed

lemma builder_run_notm:
  "interactive_entry_builder default_macros
     [(''repo'', JStr ''a/b''), (''screenshot'', JStr ''s.png''), (''modes'', JArr [JStr ''dark''])]
     (example_world [] [''notm, clean'', [], [], ''y''])
   = (Inr (Some [(''repo'', JStr ''a/b''), (''screenshot-main'', JStr ''s.png''),
                 (''screenshots-side'', JArr []),
                 (''tags'', JArr [JStr ''clean'', JStr ''dark''])]),
      example_world [] [])"
  by (simp add: interactive_entry_builder_def assemble_entry_def Let_def py_input_def
       example_world_def dict_get_def dict_get_default_def mode_tags_def open_github_repo_def
       py_strip_def py_isspace_def py_lower_def py_lower_char_def expand_tags_def expand_tag_def
       default_macros_def final_tags_def)

theorem notm_withholds_default_witness:
  "interactive_entry_builder default_macros
     [(''repo'', JStr ''a/b''), (''screenshot'', JStr ''s.png''), (''modes'', JArr [JStr ''dark''])]
     (example_world [] [''notm, clean'', [], [], ''y''])
   = (Inr (Some [(''repo'', JStr ''a/b''), (''screenshot-main'', JStr ''s.png''),
                 (''screenshots-side'', JArr []),
                 (''tags'', JArr [JStr ''clean'', JStr ''dark''])]),
      example_world [] [])
   \<and> stdin (example_world [] [''notm, clean'', [], [], ''y''])
       = Line ''notm, clean'' # [Line [], Line [], Line ''y'']
   \<and> count_list (expand_tags default_macros (py_strip ''notm, clean'')) ''notm'' = 1
   \<and> (\<exists>tags. map_of [(''repo'', JStr ''a/b''), (''screenshot-main'', JStr ''s.png''),
                 (''screenshots-side'', JArr []),
                 (''tags'', JArr [JStr ''clean'', JStr ''dark''])] ''tags''
               = Some (JArr (map JStr tags))
           \<and> ''notm'' \<notin> set tags
           \<and> (''minimalistic'' \<in> set tags
                \<longleftrightarrow> ''minimalistic'' \<in> set (expand_tags default_macros (py_strip ''notm, clean''))))"
proof -
  have h2: "stdin (example_world [] [''notm, clean'', [], [], ''y''])
              = Line ''notm, clean'' # [Line [], Line [], Line ''y'']"
    by (simp add: example_world_def)
  have h3: "count_list (expand_tags default_macros (py_strip ''notm, clean'')) ''notm'' = 1"
    by (simp add: expand_tags_def expand_tag_def default_macros_def py_strip_def py_isspace_def)
  show ?thesis
    using builder_run_notm h2 h3 notm_withholds_default [OF builder_run_notm h2 h3]
    by blast
qed

text \<open>
  The operator types \<open>notm, m\<close>: the macro \<open>m\<close> expands to \<open>minimalistic\<close>, and the record
  produced carries that tag.
\<close>

theorem notm_with_macro_m_counterexample:
  "fst (interactive_entry_builder default_macros
     [(''repo'', JStr ''a/b''), (''screenshot'', JStr ''s.png''), (''modes'', JArr [JStr ''dark''])]
     (example_world [] [''notm, m'', [], [], ''y'']))
   = Inr (Some [(''repo'', JStr ''a/b''), (''screenshot-main'', JStr ''s.png''),
                (''screenshots-side'', JArr []),
                (''tags'', JArr [JStr ''dark'', JStr ''minimalistic''])])"
  by (simp add: interactive_entry_builder_def assemble_entry_def Let_def py_input_def
       example_world_def dict_get_def dict_get_default_def mode_tags_def open_github_repo_def
       py_strip_def py_isspace_def py_lower_def py_lower_char_def expand_tags_def expand_tag_def
       default_macros_def final_tags_def)

text \<open>
  \<open>tags.remove('notm')\<close> removes one occurrence: typed twice, \<open>notm\<close> stays among the tags.
\<close>

lemma final_tags_notm_twice:
  "final_tags [''notm'', ''notm''] [''dark''] = [''dark'', ''notm'']"
  by (simp add: final_tags_def)

section \<open>The Batch Session: the tally\<close>



















end
